theory Spec2Isabelle
  imports Main "HOL-Library.Sublist"
begin

section \<open>The build-target matrix of rollup.config.ts\<close>

text \<open>
  A shallow embedding of \<^verbatim>\<open>src/rollup.config.ts\<close>. The file is a pure configuration
  generator: it builds four Rollup option objects from one package declaration. Objects
  become records, optional properties become \<open>option\<close> fields, the plugin objects returned
  by the imported plugin factories become a datatype that records which factory was called
  and with which arguments, and JavaScript strings become \<open>string\<close>.
\<close>

subsection \<open>Data model\<close>

text \<open>The literal type \<^verbatim>\<open>'development' | 'production'\<close> of \<^verbatim>\<open>umdDevPlugin\<close>.\<close>

datatype node_env = development | production

fun node_env_string :: "node_env \<Rightarrow> string" where
  "node_env_string development = ''development''"
| "node_env_string production = ''production''"

text \<open>
  One constructor per imported plugin factory, holding the options object of the call:
  \<^verbatim>\<open>babel({babelHelpers, exclude, extensions})\<close> (the regular expression \<^verbatim>\<open>exclude\<close> kept as
  its source text), \<^verbatim>\<open>nodeResolve({extensions})\<close>, \<^verbatim>\<open>replace({...})\<close> (the replaced keys as
  an association list, beside the two settings \<^verbatim>\<open>delimiters\<close> and \<^verbatim>\<open>preventAssignment\<close>),
  \<^verbatim>\<open>terser({mangle, compress})\<close>, \<^verbatim>\<open>size({})\<close> and \<^verbatim>\<open>visualizer({filename, json, gzipSize})\<close>,
  where a property the call leaves out is \<open>None\<close>.
\<close>

datatype plugin =
    is_babel: babel (babelHelpers: string) (exclude: string) (babel_extensions: "string list")
  | is_nodeResolve: nodeResolve (extensions: "string list")
  | is_replace: replace (replacements: "(string \<times> string) list")
      (delimiters: "string \<times> string") (preventAssignment: bool)
  | is_terser: terser (mangle: bool) (compress: bool)
  | is_size: sizePlugin
  | is_visualizer: visualizer (filename: string) (json: "bool option") (gzipSize: "bool option")

text \<open>The \<^verbatim>\<open>output\<close> object of a Rollup configuration, with the properties this file sets.\<close>

record OutputOptions =
  output_format :: string
  output_sourcemap :: bool
  output_dir :: "string option"
  output_file :: "string option"
  output_preserveModules :: "bool option"
  output_exports :: "string option"
  output_name :: "string option"
  output_globals :: "(string \<times> string) list option"
  output_banner :: string

text \<open>\<^verbatim>\<open>RollupOptions\<close>, with the four properties this file sets.\<close>

record RollupOptions =
  external :: "string \<Rightarrow> bool"
  input :: string
  "output" :: OutputOptions
  plugins :: "plugin list"

text \<open>The type \<^verbatim>\<open>Options\<close> handed to the four target builders.\<close>

record Options =
  options_input :: string
  options_packageDir :: string
  options_external :: "string \<Rightarrow> bool"
  options_banner :: string
  options_jsName :: string
  options_outputFile :: string

text \<open>The parameter \<^verbatim>\<open>opts\<close> of \<^verbatim>\<open>buildConfigs\<close>: the package declaration.\<close>

record BuildOpts =
  opts_packageDir :: string
  opts_name :: string
  opts_jsName :: string
  opts_outputFile :: string
  opts_entryFile :: string

subsection \<open>Module-level constants\<close>

text \<open>
  The object \<^verbatim>\<open>globals\<close> as an association list in property order, which is the order
  \<^verbatim>\<open>Object.keys\<close> returns for these keys.
\<close>

definition globals :: "(string \<times> string) list" where
  "globals =
    [(''react'', ''React''),
     (''solid-js'', ''Solid''),
     (''solid-js/store'', ''SolidStore''),
     (''react-dom'', ''ReactDOM''),
     (''@tanstack/ranger-core'', ''RangerCore'')]"

definition externals :: "string list" where
  "externals = map fst globals"

definition umdDevPlugin :: "node_env \<Rightarrow> plugin" where
  "umdDevPlugin type =
    replace [(''process.env.NODE_ENV'', [CHR 0x22] @ node_env_string type @ [CHR 0x22])]
      ('''', '''') True"

definition babelPlugin :: plugin where
  "babelPlugin = babel ''bundled'' ''node_modules'' [''.ts'', ''.tsx'', ''.jsx'']"

subsection \<open>The banner\<close>

definition createBanner :: "string \<Rightarrow> string" where
  "createBanner libraryName =
    ''/**\<newline> * '' @ libraryName @
    ''\<newline> *\<newline> * Copyright (c) TanStack\<newline> *\<newline> * This source code is licensed under the MIT license found in the\<newline> * LICENSE.md file in the root directory of this source tree.\<newline> *\<newline> * @license MIT\<newline> */''"

subsection \<open>The four target builders\<close>

text \<open>
  The functions \<^verbatim>\<open>esm\<close> (lines 79-92 of the source), \<^verbatim>\<open>cjs\<close> (94-109), \<^verbatim>\<open>umdDev\<close> (111-137)
  and \<^verbatim>\<open>umdProd\<close> (139-179). Each reads the fields of \<^verbatim>\<open>Options\<close> that its parameter
  pattern names; \<^verbatim>\<open>umdDev\<close> and \<^verbatim>\<open>umdProd\<close> name \<^verbatim>\<open>outputFile\<close> there and never use it.
\<close>

definition esm :: "Options \<Rightarrow> RollupOptions" where
  "esm opt =
    \<lparr> external = options_external opt,
      input = options_input opt,
      output =
        \<lparr> output_format = ''esm'',
          output_sourcemap = True,
          output_dir = Some (options_packageDir opt @ ''/build/esm''),
          output_file = None,
          output_preserveModules = None,
          output_exports = None,
          output_name = None,
          output_globals = None,
          output_banner = options_banner opt \<rparr>,
      plugins = [babelPlugin, nodeResolve [''.ts'', ''.tsx'', ''.jsx'']] \<rparr>"

definition cjs :: "Options \<Rightarrow> RollupOptions" where
  "cjs opt =
    \<lparr> external = options_external opt,
      input = options_input opt,
      output =
        \<lparr> output_format = ''cjs'',
          output_sourcemap = True,
          output_dir = Some (options_packageDir opt @ ''/build/cjs''),
          output_file = None,
          output_preserveModules = Some True,
          output_exports = Some ''named'',
          output_name = None,
          output_globals = None,
          output_banner = options_banner opt \<rparr>,
      plugins = [babelPlugin, nodeResolve [''.ts'', ''.tsx'', ''.jsx'']] \<rparr>"

definition umdDev :: "Options \<Rightarrow> RollupOptions" where
  "umdDev opt =
    \<lparr> external = options_external opt,
      input = options_input opt,
      output =
        \<lparr> output_format = ''umd'',
          output_sourcemap = True,
          output_dir = None,
          output_file = Some (options_packageDir opt @ ''/build/umd/index.development.js''),
          output_preserveModules = None,
          output_exports = None,
          output_name = Some (options_jsName opt),
          output_globals = Some globals,
          output_banner = options_banner opt \<rparr>,
      plugins =
        [babelPlugin,
         nodeResolve [''.ts'', ''.tsx'', ''.jsx''],
         umdDevPlugin development] \<rparr>"

definition umdProd :: "Options \<Rightarrow> RollupOptions" where
  "umdProd opt =
    \<lparr> external = options_external opt,
      input = options_input opt,
      output =
        \<lparr> output_format = ''umd'',
          output_sourcemap = True,
          output_dir = None,
          output_file = Some (options_packageDir opt @ ''/build/umd/index.production.js''),
          output_preserveModules = None,
          output_exports = None,
          output_name = Some (options_jsName opt),
          output_globals = Some globals,
          output_banner = options_banner opt \<rparr>,
      plugins =
        [babelPlugin,
         nodeResolve [''.ts'', ''.tsx'', ''.jsx''],
         umdDevPlugin production,
         terser True True,
         sizePlugin,
         visualizer (options_packageDir opt @ ''/build/stats-html.html'') None (Some True),
         visualizer (options_packageDir opt @ ''/build/stats-react.json'') (Some True)
           (Some True)] \<rparr>"

subsection \<open>The descriptor builder and the exported generator\<close>

text \<open>
  \<^verbatim>\<open>path.resolve\<close> belongs to the Node runtime, not to this file, and its result depends
  on the working directory of the process. The builder takes it as the parameter
  \<open>path_resolve\<close>, so every theorem below holds for any implementation of it.
\<close>

definition buildConfigs :: "(string \<Rightarrow> string \<Rightarrow> string) \<Rightarrow> BuildOpts \<Rightarrow> RollupOptions list" where
  "buildConfigs path_resolve opts =
    (let input = path_resolve (opts_packageDir opts) (opts_entryFile opts);
         externalDeps = externals;
         external = (\<lambda>moduleName. List.member externalDeps moduleName);
         banner = createBanner (opts_name opts);
         options =
           \<lparr> options_input = input,
             options_packageDir = opts_packageDir opts,
             options_external = external,
             options_banner = banner,
             options_jsName = opts_jsName opts,
             options_outputFile = opts_outputFile opts \<rparr>
     in [esm options, cjs options, umdDev options, umdProd options])"

definition rollup :: "(string \<Rightarrow> string \<Rightarrow> string) \<Rightarrow> RollupOptions \<Rightarrow> RollupOptions list" where
  "rollup path_resolve options =
    concat
      [buildConfigs path_resolve
        \<lparr> opts_packageDir = ''packages/ranger-core'',
          opts_name = ''ranger-core'',
          opts_jsName = ''RangerCore'',
          opts_outputFile = ''ranger-core'',
          opts_entryFile = ''src/index.jsx'' \<rparr>]"

subsection \<open>A model of \<^verbatim>\<open>path.resolve\<close> for concrete evaluation\<close>

text \<open>
  The POSIX variant of Node's \<^verbatim>\<open>path.resolve\<close>, with the working directory as the
  parameter \<open>cwd\<close>. The arguments are visited from the last to the first and then \<open>cwd\<close>,
  skipping empty ones, until an absolute one has been prepended; the result is normalised
  segment by segment: empty and \<^verbatim>\<open>.\<close> segments are dropped, \<^verbatim>\<open>..\<close> removes the segment
  before it (and is kept at the front of a relative path only). It instantiates the
  parameter \<open>path_resolve\<close> wherever a closed term is evaluated.
\<close>

fun split_slash :: "string \<Rightarrow> string list" where
  "split_slash [] = [[]]"
| "split_slash (c # cs) =
    (if c = CHR ''/'' then [] # split_slash cs
     else (case split_slash cs of
             [] \<Rightarrow> [[c]]
           | s # ss \<Rightarrow> (c # s) # ss))"

fun join_slash :: "string list \<Rightarrow> string" where
  "join_slash [] = []"
| "join_slash [s] = s"
| "join_slash (s # t # ss) = s @ ''/'' @ join_slash (t # ss)"

text \<open>One segment of \<^verbatim>\<open>normalizeString\<close>; the segments kept so far are held last first.\<close>

fun normalize_step :: "bool \<Rightarrow> string list \<Rightarrow> string \<Rightarrow> string list" where
  "normalize_step allowAboveRoot st seg =
    (if seg = [] \<or> seg = ''.'' then st
     else if seg = ''..'' then
       (case st of
          [] \<Rightarrow> if allowAboveRoot then [''..''] else []
        | seg0 # rest \<Rightarrow>
            if seg0 = ''..'' then (if allowAboveRoot then ''..'' # st else st) else rest)
     else seg # st)"

definition normalizeString :: "string \<Rightarrow> bool \<Rightarrow> string" where
  "normalizeString path allowAboveRoot =
    join_slash (rev (foldl (normalize_step allowAboveRoot) [] (split_slash path)))"

fun resolve_loop :: "string list \<Rightarrow> string \<Rightarrow> string \<times> bool" where
  "resolve_loop [] resolvedPath = (resolvedPath, False)"
| "resolve_loop ([] # ps) resolvedPath = resolve_loop ps resolvedPath"
| "resolve_loop ((c # cs) # ps) resolvedPath =
    (if c = CHR ''/'' then ((c # cs) @ ''/'' @ resolvedPath, True)
     else resolve_loop ps ((c # cs) @ ''/'' @ resolvedPath))"

definition posix_resolve :: "string \<Rightarrow> string list \<Rightarrow> string" where
  "posix_resolve cwd args =
    (case resolve_loop (rev args @ [cwd]) [] of
       (resolvedPath, resolvedAbsolute) \<Rightarrow>
         (let res = normalizeString resolvedPath (\<not> resolvedAbsolute)
          in if resolvedAbsolute then ''/'' @ res
             else if res \<noteq> [] then res else ''.''))"

definition resolve_in :: "string \<Rightarrow> string \<Rightarrow> string \<Rightarrow> string" where
  "resolve_in cwd a b = posix_resolve cwd [a, b]"

subsection \<open>Notions of the specification\<close>

text \<open>
  The four formats of the specification. A descriptor is read back as a format from its
  \<^verbatim>\<open>output.format\<close> and, for the two UMD descriptors, from the environment replacement
  in its plugin list.
\<close>

datatype target = ESM | CJS | UMD_DEV | UMD_PROD

definition target_of :: "RollupOptions \<Rightarrow> target option" where
  "target_of d =
    (if output_format (output d) = ''esm'' then Some ESM
     else if output_format (output d) = ''cjs'' then Some CJS
     else if output_format (output d) = ''umd'' then
       (if List.member (plugins d) (umdDevPlugin development) then Some UMD_DEV
        else if List.member (plugins d) (umdDevPlugin production) then Some UMD_PROD
        else None)
     else None)"

text \<open>
  Rollup emits one file per source module exactly when \<^verbatim>\<open>output.preserveModules\<close> is
  true; the option defaults to false when it is left out.
\<close>

definition emits_file_per_module :: "OutputOptions \<Rightarrow> bool" where
  "emits_file_per_module out = (output_preserveModules out = Some True)"

text \<open>
  The header format of the specification's section 6, line by line, with its two
  placeholders as parameters.
\<close>

fun join_lines :: "string list \<Rightarrow> string" where
  "join_lines [] = []"
| "join_lines [l] = l"
| "join_lines (l # m # ls) = l @ ''\<newline>'' @ join_lines (m # ls)"

definition header_format :: "string \<Rightarrow> string \<Rightarrow> string" where
  "header_format displayName organization =
    join_lines
      [''/**'',
       '' * '' @ displayName,
       '' *'',
       '' * Copyright (c) '' @ organization,
       '' *'',
       '' * This source code is licensed under the MIT license found in the'',
       '' * LICENSE.md file in the root directory of this source tree.'',
       '' *'',
       '' * @license MIT'',
       '' */'']"

text \<open>The number of positions of a text at which a given string occurs.\<close>

fun count_occurrences :: "string \<Rightarrow> string \<Rightarrow> nat" where
  "count_occurrences p [] = (if p = [] then 1 else 0)"
| "count_occurrences p (c # cs) =
    (if prefix p (c # cs) then 1 else 0) + count_occurrences p cs"

text \<open>
  Every element of a list that satisfies \<open>P\<close> stands at a smaller index than every
  element that satisfies \<open>Q\<close>.
\<close>

definition strictly_before :: "('a \<Rightarrow> bool) \<Rightarrow> ('a \<Rightarrow> bool) \<Rightarrow> 'a list \<Rightarrow> bool" where
  "strictly_before P Q xs =
    (\<forall>i \<in> set [0..<length xs]. \<forall>j \<in> set [0..<length xs].
       P (xs ! i) \<and> Q (xs ! j) \<longrightarrow> i < j)"

text \<open>The package declaration that \<^verbatim>\<open>rollup\<close> passes to \<^verbatim>\<open>buildConfigs\<close>.\<close>

definition ranger_core :: BuildOpts where
  "ranger_core =
    \<lparr> opts_packageDir = ''packages/ranger-core'',
      opts_name = ''ranger-core'',
      opts_jsName = ''RangerCore'',
      opts_outputFile = ''ranger-core'',
      opts_entryFile = ''src/index.jsx'' \<rparr>"

text \<open>
  The value of the local variable \<^verbatim>\<open>options\<close> of \<^verbatim>\<open>buildConfigs\<close>, named so that the
  lemmas below can refer to it.
\<close>

definition build_options :: "(string \<Rightarrow> string \<Rightarrow> string) \<Rightarrow> BuildOpts \<Rightarrow> Options" where
  "build_options path_resolve opts =
    \<lparr> options_input = path_resolve (opts_packageDir opts) (opts_entryFile opts),
      options_packageDir = opts_packageDir opts,
      options_external = (\<lambda>moduleName. List.member externals moduleName),
      options_banner = createBanner (opts_name opts),
      options_jsName = opts_jsName opts,
      options_outputFile = opts_outputFile opts \<rparr>"

section \<open>Auxiliary lemmas\<close>

subsection \<open>The shape of the result\<close>

lemma buildConfigs_expand:
  "buildConfigs r opts =
    [esm (build_options r opts), cjs (build_options r opts),
     umdDev (build_options r opts), umdProd (build_options r opts)]"
  by (simp add: buildConfigs_def build_options_def Let_def)

lemma buildConfigs_nth:
  "buildConfigs r opts ! 0 = esm (build_options r opts)"
  "buildConfigs r opts ! 1 = cjs (build_options r opts)"
  "buildConfigs r opts ! 2 = umdDev (build_options r opts)"
  "buildConfigs r opts ! 3 = umdProd (build_options r opts)"
  by (simp_all add: buildConfigs_expand numeral_3_eq_3)

lemma target_of_esm: "target_of (esm opt) = Some ESM"
  by (simp add: target_of_def esm_def)

lemma target_of_cjs: "target_of (cjs opt) = Some CJS"
  by (simp add: target_of_def cjs_def)

lemma target_of_umdDev: "target_of (umdDev opt) = Some UMD_DEV"
  by (simp add: target_of_def umdDev_def)

lemma target_of_umdProd: "target_of (umdProd opt) = Some UMD_PROD"
  by (simp add: target_of_def umdProd_def umdDevPlugin_def babelPlugin_def)

lemma targets_buildConfigs:
  "map target_of (buildConfigs r opts) = [Some ESM, Some CJS, Some UMD_DEV, Some UMD_PROD]"
  by (simp add: buildConfigs_expand target_of_esm target_of_cjs target_of_umdDev
      target_of_umdProd)

lemma input_buildConfigs:
  "map input (buildConfigs r opts)
   = replicate 4 (r (opts_packageDir opts) (opts_entryFile opts))"
  by (simp add: buildConfigs_expand build_options_def esm_def cjs_def umdDev_def umdProd_def
      numeral_eq_Suc)

lemma externals_set:
  "set externals =
    {''react'', ''solid-js'', ''solid-js/store'', ''react-dom'', ''@tanstack/ranger-core''}"
  by (simp add: externals_def globals_def)

lemma external_buildConfigs:
  "map (\<lambda>d. external d m) (buildConfigs r opts) = replicate 4 (m \<in> set externals)"
  by (simp add: buildConfigs_expand build_options_def esm_def cjs_def umdDev_def umdProd_def
      numeral_eq_Suc)

lemma umdProd_plugins:
  "plugins (buildConfigs r opts ! 3) =
     [babel ''bundled'' ''node_modules'' [''.ts'', ''.tsx'', ''.jsx''],
      nodeResolve [''.ts'', ''.tsx'', ''.jsx''],
      replace [(''process.env.NODE_ENV'', CHR 0x22 # ''production'' @ [CHR 0x22])]
        ([], []) True,
      terser True True,
      sizePlugin,
      visualizer (opts_packageDir opts @ ''/build/stats-html.html'') None (Some True),
      visualizer (opts_packageDir opts @ ''/build/stats-react.json'') (Some True) (Some True)]"
  by (simp add: buildConfigs_nth umdProd_def build_options_def babelPlugin_def
      umdDevPlugin_def)

lemma resolve_in_ranger_core:
  "resolve_in ''/repo'' ''packages/ranger-core'' [] = ''/repo/packages/ranger-core''"
  "resolve_in ''/repo'' ''packages/ranger-core'' ''src/index.jsx''
   = ''/repo/packages/ranger-core/src/index.jsx''"
  by (simp_all add: resolve_in_def posix_resolve_def normalizeString_def)

subsection \<open>Counting occurrences\<close>

lemma count_occurrences_card:
  "count_occurrences p w = card {i. i \<le> length w \<and> prefix p (drop i w)}"
proof (induction w)
  case Nil
  have "{i. i \<le> length ([]::string) \<and> prefix p (drop i [])} = (if p = [] then {0} else {})"
    by auto
  then show ?case by simp
next
  case (Cons c cs)
  let ?A = "{i. i \<le> length cs \<and> prefix p (drop i cs)}"
  let ?Z = "if prefix p (c # cs) then {0::nat} else {}"
  have split: "{i. i \<le> length (c # cs) \<and> prefix p (drop i (c # cs))} = ?Z \<union> Suc ` ?A"
  proof (rule set_eqI)
    fix i
    show "i \<in> {i. i \<le> length (c # cs) \<and> prefix p (drop i (c # cs))}
      \<longleftrightarrow> i \<in> ?Z \<union> Suc ` ?A"
      by (cases i) auto
  qed
  have fin: "finite ?A" by simp
  have disj: "?Z \<inter> Suc ` ?A = {}" by auto
  have "card (?Z \<union> Suc ` ?A) = card ?Z + card (Suc ` ?A)"
    using fin disj by (intro card_Un_disjoint) auto
  also have "card (Suc ` ?A) = card ?A"
    by (simp add: card_image)
  finally show ?case
    using Cons.IH split by simp
qed

text \<open>
  Where the first \<open>c\<close> of a text stands: an occurrence of \<open>n\<close>, which holds a \<open>c\<close>, cannot
  start before the end of a \<open>c\<close>-free prefix.
\<close>

lemma first_mark_le:
  assumes "c \<in> set n"
  shows "length (takeWhile (\<lambda>x. x \<noteq> c) (a @ n @ b))
    \<le> length a + length (takeWhile (\<lambda>x. x \<noteq> c) n)"
proof (cases "c \<in> set a")
  case True
  then have "takeWhile (\<lambda>x. x \<noteq> c) (a @ n @ b) = takeWhile (\<lambda>x. x \<noteq> c) a"
    by (intro takeWhile_append1) auto
  then show ?thesis
    using length_takeWhile_le [of "\<lambda>x. x \<noteq> c" a] by simp
next
  case False
  then have "takeWhile (\<lambda>x. x \<noteq> c) (a @ n @ b) = a @ takeWhile (\<lambda>x. x \<noteq> c) (n @ b)"
    by (intro takeWhile_append2) auto
  moreover have "takeWhile (\<lambda>x. x \<noteq> c) (n @ b) = takeWhile (\<lambda>x. x \<noteq> c) n"
    using assms by (intro takeWhile_append1) auto
  ultimately show ?thesis by simp
qed

lemma first_mark_eq:
  assumes "c \<in> set n" and "c \<notin> set pre"
  shows "length (takeWhile (\<lambda>x. x \<noteq> c) (pre @ n @ suf))
    = length pre + length (takeWhile (\<lambda>x. x \<noteq> c) n)"
proof -
  have "takeWhile (\<lambda>x. x \<noteq> c) (pre @ n @ suf) = pre @ takeWhile (\<lambda>x. x \<noteq> c) (n @ suf)"
    using assms(2) by (intro takeWhile_append2) auto
  moreover have "takeWhile (\<lambda>x. x \<noteq> c) (n @ suf) = takeWhile (\<lambda>x. x \<noteq> c) n"
    using assms(1) by (intro takeWhile_append1) auto
  ultimately show ?thesis by simp
qed

lemma occurrence_not_earlier:
  assumes "pre @ n @ suf = a @ n @ b" and "c \<in> set n" and "c \<notin> set pre"
  shows "length pre \<le> length a"
  using first_mark_le [OF assms(2), of a b] first_mark_eq [OF assms(2,3), of suf] assms(1)
  by simp

lemma occurrence_unique:
  assumes eq: "pre @ n @ suf = a @ n @ b"
    and "c \<in> set n" and "c \<notin> set pre" and "c \<notin> set suf"
  shows "length a = length pre"
proof -
  have le: "length pre \<le> length a"
    using occurrence_not_earlier [OF eq assms(2,3)] .
  have "rev suf @ rev n @ rev pre = rev b @ rev n @ rev a"
    using arg_cong [OF eq, of rev] by simp
  then have "length (rev suf) \<le> length (rev b)"
    using assms(2,4) by (intro occurrence_not_earlier [where c = c and n = "rev n"]) auto
  moreover have "length pre + length suf = length a + length b"
    using arg_cong [OF eq, of length] by simp
  ultimately show ?thesis using le by simp
qed

lemma count_occurrences_once:
  assumes "c \<in> set n" and "c \<notin> set pre" and "c \<notin> set suf"
  shows "count_occurrences n (pre @ n @ suf) = 1"
proof -
  have "{i. i \<le> length (pre @ n @ suf) \<and> prefix n (drop i (pre @ n @ suf))} = {length pre}"
  proof (rule set_eqI)
    fix i
    show "i \<in> {i. i \<le> length (pre @ n @ suf) \<and> prefix n (drop i (pre @ n @ suf))}
      \<longleftrightarrow> i \<in> {length pre}"
    proof
      assume "i \<in> {i. i \<le> length (pre @ n @ suf) \<and> prefix n (drop i (pre @ n @ suf))}"
      then have i: "i \<le> length (pre @ n @ suf)"
        and "prefix n (drop i (pre @ n @ suf))"
        by auto
      then obtain b where "drop i (pre @ n @ suf) = n @ b"
        by (auto simp: prefix_def)
      then have "pre @ n @ suf = take i (pre @ n @ suf) @ n @ b"
        by (metis append_take_drop_id)
      from occurrence_unique [OF this assms] i show "i \<in> {length pre}"
        by simp
    next
      assume "i \<in> {length pre}"
      then show "i \<in> {i. i \<le> length (pre @ n @ suf) \<and> prefix n (drop i (pre @ n @ suf))}"
        by simp
    qed
  qed
  then show ?thesis
    by (simp add: count_occurrences_card)
qed

lemma count_occurrences_at_least_once: "1 \<le> count_occurrences p (xs @ p @ ys)"
proof (induction xs)
  case Nil
  show ?case
  proof (cases "p @ ys")
    case Nil
    then show ?thesis by simp
  next
    case (Cons c cs)
    have "prefix p (p @ ys)" by simp
    then show ?thesis unfolding Cons by simp
  qed
next
  case (Cons x xs)
  then show ?case by simp
qed

subsection \<open>The banner and the header format\<close>

lemma createBanner_header: "createBanner n = header_format n ''TanStack''"
  by (simp add: createBanner_def header_format_def)

lemma header_split:
  "header_format n ''TanStack'' = ''/**\<newline> * '' @ n @ drop 7 (header_format [] ''TanStack'')"
  by (simp add: header_format_def)

lemma header_fixed_text:
  "header_format [] ''TanStack'' = ''/**\<newline> * '' @ drop 7 (header_format [] ''TanStack'')"
  by (simp add: header_format_def)

lemma banner_buildConfigs:
  "map (output_banner \<circ> output) (buildConfigs r opts) = replicate 4 (createBanner (opts_name opts))"
  by (simp add: buildConfigs_expand build_options_def esm_def cjs_def umdDev_def umdProd_def
      numeral_eq_Suc)

section \<open>The claims\<close>

subsection \<open>C1: four descriptors in a fixed order, one entry path\<close>

text \<open>
  C1. For every package declaration, and whatever \<^verbatim>\<open>path.resolve\<close> computes,
  \<open>buildConfigs\<close> returns exactly four descriptors; read back as formats they are ESM, CJS,
  UMD-DEV and UMD-PROD in this order (with \<^verbatim>\<open>output.format\<close> esm, cjs, umd, umd), and the
  \<^verbatim>\<open>input\<close> of each of the four is the one path resolved from the package directory and the
  entry file.
\<close>

theorem buildConfigs_four_targets:
  "length (buildConfigs r opts) = 4
   \<and> map target_of (buildConfigs r opts) = [Some ESM, Some CJS, Some UMD_DEV, Some UMD_PROD]
   \<and> map (output_format \<circ> output) (buildConfigs r opts) = [''esm'', ''cjs'', ''umd'', ''umd'']
   \<and> map input (buildConfigs r opts)
       = replicate 4 (r (opts_packageDir opts) (opts_entryFile opts))"
proof -
  have "length (buildConfigs r opts) = 4"
    by (simp add: buildConfigs_expand)
  moreover have
    "map (output_format \<circ> output) (buildConfigs r opts) = [''esm'', ''cjs'', ''umd'', ''umd'']"
    by (simp add: buildConfigs_expand esm_def cjs_def umdDev_def umdProd_def)
  ultimately show ?thesis
    using targets_buildConfigs [of r opts] input_buildConfigs [of r opts] by simp
qed

text \<open>The declaration of \<^verbatim>\<open>rollup\<close>, resolved in the working directory \<^verbatim>\<open>/repo\<close>.\<close>

theorem buildConfigs_four_targets_witness:
  "map target_of (buildConfigs (resolve_in ''/repo'') ranger_core)
     = [Some ESM, Some CJS, Some UMD_DEV, Some UMD_PROD]
   \<and> map input (buildConfigs (resolve_in ''/repo'') ranger_core)
     = [''/repo/packages/ranger-core/src/index.jsx'',
        ''/repo/packages/ranger-core/src/index.jsx'',
        ''/repo/packages/ranger-core/src/index.jsx'',
        ''/repo/packages/ranger-core/src/index.jsx'']"
  using buildConfigs_four_targets [of "resolve_in ''/repo''" ranger_core]
  by (simp add: ranger_core_def resolve_in_ranger_core numeral_eq_Suc)

subsection \<open>C2: the external classifier is exact membership\<close>

text \<open>
  C2. On each of the four descriptors of a package, \<^verbatim>\<open>external\<close> answers true for a module
  name exactly when the name is one of the five declared peer-dependency names; the test is
  equality of whole strings, and every other name is answered false. The predicate is
  total: there is no error case.
\<close>

theorem isExternal_exact_membership:
  "map (\<lambda>d. external d moduleName) (buildConfigs r opts)
   = replicate 4 (moduleName \<in> {''react'', ''solid-js'', ''solid-js/store'', ''react-dom'',
                                 ''@tanstack/ranger-core''})"
  by (simp only: external_buildConfigs externals_set)

text \<open>
  A declared name, a proper prefix of one, an extension of one and an unrelated name.
\<close>

theorem isExternal_exact_membership_witness:
  "map (\<lambda>d. external d ''solid-js'') (buildConfigs (resolve_in ''/repo'') ranger_core)
     = [True, True, True, True]
   \<and> map (\<lambda>d. external d ''solid'') (buildConfigs (resolve_in ''/repo'') ranger_core)
     = [False, False, False, False]
   \<and> map (\<lambda>d. external d ''solid-js/web'') (buildConfigs (resolve_in ''/repo'') ranger_core)
     = [False, False, False, False]
   \<and> map (\<lambda>d. external d ''left-pad'') (buildConfigs (resolve_in ''/repo'') ranger_core)
     = [False, False, False, False]"
  using isExternal_exact_membership [of "''solid-js''" "resolve_in ''/repo''" ranger_core]
    isExternal_exact_membership [of "''solid''" "resolve_in ''/repo''" ranger_core]
    isExternal_exact_membership [of "''solid-js/web''" "resolve_in ''/repo''" ranger_core]
    isExternal_exact_membership [of "''left-pad''" "resolve_in ''/repo''" ranger_core]
  by (simp add: numeral_eq_Suc)

subsection \<open>C3: empty fields of the declaration\<close>

text \<open>
  C3, as amended. \<open>buildConfigs\<close> validates nothing and has no error case: for a
  declaration whose entry file, display name (\<^verbatim>\<open>jsName\<close>) or output base name is empty it
  still returns the four descriptors, in the usual order, with the entry path resolved from
  the package directory and the (possibly empty) entry file, and with the (possibly empty)
  display name as the global name of the two UMD descriptors.
\<close>

theorem empty_fields_no_error:
  assumes "opts_entryFile opts = [] \<or> opts_jsName opts = [] \<or> opts_outputFile opts = []"
  shows "length (buildConfigs r opts) = 4
   \<and> map target_of (buildConfigs r opts) = [Some ESM, Some CJS, Some UMD_DEV, Some UMD_PROD]
   \<and> map input (buildConfigs r opts)
       = replicate 4 (r (opts_packageDir opts) (opts_entryFile opts))
   \<and> map (output_name \<circ> output) (buildConfigs r opts)
       = [None, None, Some (opts_jsName opts), Some (opts_jsName opts)]"
proof -
  have "map (output_name \<circ> output) (buildConfigs r opts)
       = [None, None, Some (opts_jsName opts), Some (opts_jsName opts)]"
    by (simp add: buildConfigs_expand build_options_def esm_def cjs_def umdDev_def umdProd_def)
  moreover have "length (buildConfigs r opts) = 4"
    by (simp add: buildConfigs_expand)
  ultimately show ?thesis
    using targets_buildConfigs [of r opts] input_buildConfigs [of r opts] by simp
qed

text \<open>The declaration of \<^verbatim>\<open>rollup\<close> with its entry file emptied.\<close>

theorem empty_fields_no_error_witness:
  "opts_entryFile (ranger_core\<lparr>opts_entryFile := []\<rparr>) = []
   \<and> length (buildConfigs (resolve_in ''/repo'') (ranger_core\<lparr>opts_entryFile := []\<rparr>)) = 4
   \<and> map input (buildConfigs (resolve_in ''/repo'') (ranger_core\<lparr>opts_entryFile := []\<rparr>))
       = replicate 4 ''/repo/packages/ranger-core''"
  using empty_fields_no_error [of "ranger_core\<lparr>opts_entryFile := []\<rparr>" "resolve_in ''/repo''"]
  by (simp add: ranger_core_def resolve_in_ranger_core)

text \<open>
  C3 as stated fails: with an empty entry file, an empty display name or an empty output
  base name, all four descriptors are produced and nothing is reported.
\<close>

theorem empty_fields_counterexample:
  "map target_of (buildConfigs (resolve_in ''/repo'') (ranger_core\<lparr>opts_entryFile := []\<rparr>))
     = [Some ESM, Some CJS, Some UMD_DEV, Some UMD_PROD]
   \<and> map input (buildConfigs (resolve_in ''/repo'') (ranger_core\<lparr>opts_entryFile := []\<rparr>))
     = replicate 4 ''/repo/packages/ranger-core''
   \<and> map target_of (buildConfigs (resolve_in ''/repo'') (ranger_core\<lparr>opts_jsName := []\<rparr>))
     = [Some ESM, Some CJS, Some UMD_DEV, Some UMD_PROD]
   \<and> map target_of (buildConfigs (resolve_in ''/repo'') (ranger_core\<lparr>opts_outputFile := []\<rparr>))
     = [Some ESM, Some CJS, Some UMD_DEV, Some UMD_PROD]"
  by (simp add: targets_buildConfigs input_buildConfigs ranger_core_def resolve_in_ranger_core)

subsection \<open>C4: the UMD-PROD pipeline\<close>

text \<open>
  C4, as amended. For every package the plugin list of the UMD-PROD descriptor is exactly
  these seven stages: transpile (\<^verbatim>\<open>babel\<close>), module resolution (\<^verbatim>\<open>nodeResolve\<close>), the
  replacement of \<^verbatim>\<open>process.env.NODE_ENV\<close> by the quoted word \<^verbatim>\<open>production\<close>, the minifier
  with \<^verbatim>\<open>mangle\<close> and \<^verbatim>\<open>compress\<close> true, the bundle-size reporter \<^verbatim>\<open>size({})\<close>, the html
  report with \<^verbatim>\<open>gzipSize\<close> true, and the json report with \<^verbatim>\<open>gzipSize\<close> true.
\<close>

theorem umdProd_pipeline:
  "target_of (buildConfigs r opts ! 3) = Some UMD_PROD
   \<and> plugins (buildConfigs r opts ! 3) =
     [babel ''bundled'' ''node_modules'' [''.ts'', ''.tsx'', ''.jsx''],
      nodeResolve [''.ts'', ''.tsx'', ''.jsx''],
      replace [(''process.env.NODE_ENV'', CHR 0x22 # ''production'' @ [CHR 0x22])]
        ([], []) True,
      terser True True,
      sizePlugin,
      visualizer (opts_packageDir opts @ ''/build/stats-html.html'') None (Some True),
      visualizer (opts_packageDir opts @ ''/build/stats-react.json'') (Some True) (Some True)]"
proof -
  have "target_of (buildConfigs r opts ! 3) = Some UMD_PROD"
    by (simp add: buildConfigs_nth target_of_umdProd)
  then show ?thesis
    by (simp add: umdProd_plugins)
qed

text \<open>
  C4 as stated fails: the pipeline has seven stages, not six; the fifth is the size
  reporter, which the claim does not list, and the html report does carry
  \<^verbatim>\<open>gzipSize: true\<close>.
\<close>

theorem umdProd_pipeline_counterexample:
  "target_of (buildConfigs (resolve_in ''/repo'') ranger_core ! 3) = Some UMD_PROD
   \<and> length (plugins (buildConfigs (resolve_in ''/repo'') ranger_core ! 3)) = 7
   \<and> plugins (buildConfigs (resolve_in ''/repo'') ranger_core ! 3) ! 4 = sizePlugin
   \<and> plugins (buildConfigs (resolve_in ''/repo'') ranger_core ! 3) ! 5
       = visualizer ''packages/ranger-core/build/stats-html.html'' None (Some True)"
proof -
  have "target_of (buildConfigs (resolve_in ''/repo'') ranger_core ! 3) = Some UMD_PROD"
    by (simp add: buildConfigs_nth target_of_umdProd)
  then show ?thesis
    by (simp add: umdProd_plugins ranger_core_def)
qed

subsection \<open>C5: the banner\<close>

text \<open>
  C5, as amended. For every package the banner text is the same on the four descriptors
  and is the header format of section 6 with TanStack as the organization and the
  package's \<^verbatim>\<open>name\<close> field (not its display name \<^verbatim>\<open>jsName\<close>) on the second line. The name
  occurs in the banner at least once, and exactly once whenever it contains a character
  that does not occur in the fixed text of the header.
\<close>

theorem banner_shared_and_formatted:
  "map (output_banner \<circ> output) (buildConfigs r opts)
     = replicate 4 (header_format (opts_name opts) ''TanStack'')
   \<and> 1 \<le> count_occurrences (opts_name opts) (header_format (opts_name opts) ''TanStack'')
   \<and> ((\<exists>c \<in> set (opts_name opts). c \<notin> set (header_format [] ''TanStack''))
        \<longrightarrow> count_occurrences (opts_name opts) (header_format (opts_name opts) ''TanStack'') = 1)"
proof -
  let ?n = "opts_name opts"
  let ?suf = "drop 7 (header_format [] ''TanStack'')"
  have shared: "map (output_banner \<circ> output) (buildConfigs r opts)
      = replicate 4 (header_format ?n ''TanStack'')"
    by (simp only: banner_buildConfigs createBanner_header)
  have least: "1 \<le> count_occurrences ?n (header_format ?n ''TanStack'')"
    unfolding header_split [of ?n] by (rule count_occurrences_at_least_once)
  have once: "count_occurrences ?n (header_format ?n ''TanStack'') = 1"
    if "c \<in> set ?n" and "c \<notin> set (header_format [] ''TanStack'')" for c
  proof -
    have "c \<notin> set (''/**\<newline> * '' @ ?suf)"
      using that(2) header_fixed_text by simp
    then have "c \<notin> set ''/**\<newline> * ''" and "c \<notin> set ?suf"
      by simp_all
    with that(1) show ?thesis
      unfolding header_split [of ?n] by (intro count_occurrences_once [where c = c])
  qed
  show ?thesis
    using shared least once by blast
qed

text \<open>
  The declaration of \<^verbatim>\<open>rollup\<close>: the hyphen of \<^verbatim>\<open>ranger-core\<close> does not occur in the fixed
  text, and the name occurs once in the banner of each of the four descriptors.
\<close>

theorem banner_shared_and_formatted_witness:
  "CHR ''-'' \<in> set (opts_name ranger_core)
   \<and> CHR ''-'' \<notin> set (header_format [] ''TanStack'')
   \<and> map (\<lambda>d. count_occurrences ''ranger-core'' (output_banner (output d)))
        (buildConfigs (resolve_in ''/repo'') ranger_core) = [1, 1, 1, 1]"
proof -
  have name: "opts_name ranger_core = ''ranger-core''"
    by (simp add: ranger_core_def)
  have inside: "CHR ''-'' \<in> set (opts_name ranger_core)"
    by (simp add: name)
  have outside: "CHR ''-'' \<notin> set (header_format [] ''TanStack'')"
    by (simp add: header_format_def)
  let ?B = "buildConfigs (resolve_in ''/repo'') ranger_core"
  let ?H = "header_format ''ranger-core'' ''TanStack''"
  from banner_shared_and_formatted [of "resolve_in ''/repo''" ranger_core] inside outside
  have shared: "map (output_banner \<circ> output) ?B = replicate 4 ?H"
    and once: "count_occurrences ''ranger-core'' ?H = 1"
    unfolding name by blast+
  have "map (\<lambda>d. count_occurrences ''ranger-core'' (output_banner (output d))) ?B
      = map (count_occurrences ''ranger-core'') (map (output_banner \<circ> output) ?B)"
    by simp
  also have "\<dots> = map (count_occurrences ''ranger-core'') (replicate 4 ?H)"
    by (simp only: shared)
  also have "\<dots> = [1, 1, 1, 1]"
    using once by (simp add: numeral_eq_Suc)
  finally show ?thesis
    using inside outside by simp
qed

text \<open>
  C5 as stated fails for a package named \<^verbatim>\<open>MIT\<close> with the display name \<^verbatim>\<open>RangerCore\<close>: its
  name occurs three times in each banner, and its display name does not occur at all.
\<close>

theorem banner_counterexample:
  "map (\<lambda>d. count_occurrences ''MIT'' (output_banner (output d)))
     (buildConfigs (resolve_in ''/repo'') (ranger_core\<lparr>opts_name := ''MIT''\<rparr>)) = [3, 3, 3, 3]
   \<and> map (\<lambda>d. count_occurrences ''RangerCore'' (output_banner (output d)))
     (buildConfigs (resolve_in ''/repo'') (ranger_core\<lparr>opts_name := ''MIT''\<rparr>)) = [0, 0, 0, 0]
   \<and> opts_jsName (ranger_core\<lparr>opts_name := ''MIT''\<rparr>) = ''RangerCore''"
proof -
  have three: "count_occurrences ''MIT'' (createBanner ''MIT'') = 3"
    by (simp add: createBanner_def)
  have none: "count_occurrences ''RangerCore'' (createBanner ''MIT'') = 0"
    by (simp add: createBanner_def)
  show ?thesis
    by (simp add: buildConfigs_expand build_options_def esm_def cjs_def umdDev_def umdProd_def
        ranger_core_def three none)
qed

subsection \<open>C6: the two directory outputs\<close>

text \<open>
  C6, as amended. For every package the ESM descriptor writes to the directory
  \<^verbatim>\<open><packageDir>/build/esm\<close> with sourcemaps enabled and sets no \<^verbatim>\<open>preserveModules\<close>
  option, so it does not ask for one emitted file per source module; the CJS descriptor
  writes to \<^verbatim>\<open><packageDir>/build/cjs\<close> with sourcemaps enabled, \<^verbatim>\<open>preserveModules\<close> true (one
  emitted file per source module) and named exports.
\<close>

theorem directory_outputs:
  "target_of (buildConfigs r opts ! 0) = Some ESM
   \<and> output (buildConfigs r opts ! 0) =
     \<lparr> output_format = ''esm'', output_sourcemap = True,
       output_dir = Some (opts_packageDir opts @ ''/build/esm''), output_file = None,
       output_preserveModules = None, output_exports = None, output_name = None,
       output_globals = None, output_banner = createBanner (opts_name opts) \<rparr>
   \<and> \<not> emits_file_per_module (output (buildConfigs r opts ! 0))
   \<and> target_of (buildConfigs r opts ! 1) = Some CJS
   \<and> output (buildConfigs r opts ! 1) =
     \<lparr> output_format = ''cjs'', output_sourcemap = True,
       output_dir = Some (opts_packageDir opts @ ''/build/cjs''), output_file = None,
       output_preserveModules = Some True, output_exports = Some ''named'',
       output_name = None, output_globals = None,
       output_banner = createBanner (opts_name opts) \<rparr>
   \<and> emits_file_per_module (output (buildConfigs r opts ! 1))"
  by (simp only: buildConfigs_nth target_of_esm target_of_cjs)
    (simp add: esm_def cjs_def build_options_def emits_file_per_module_def)

text \<open>
  C6 as stated fails on the ESM descriptor: it leaves \<^verbatim>\<open>preserveModules\<close> out, so the
  per-module output shape is not preserved there.
\<close>

theorem directory_outputs_counterexample:
  "target_of (buildConfigs (resolve_in ''/repo'') ranger_core ! 0) = Some ESM
   \<and> output_preserveModules (output (buildConfigs (resolve_in ''/repo'') ranger_core ! 0)) = None
   \<and> \<not> emits_file_per_module (output (buildConfigs (resolve_in ''/repo'') ranger_core ! 0))"
  by (simp only: buildConfigs_nth target_of_esm)
    (simp add: esm_def emits_file_per_module_def)

subsection \<open>C7: the stage order of the UMD-PROD pipeline\<close>

text \<open>
  C7. In the UMD-PROD pipeline of every package the environment replacement stands
  strictly after the transpile stage and the module-resolution stage and strictly before
  the minifier, and the minifier stands strictly before both report stages. Each of the
  four single stages is present once and the report stages are two, so none of the
  orderings holds emptily.
\<close>

theorem umdProd_stage_order:
  "strictly_before is_babel is_replace (plugins (buildConfigs r opts ! 3))
   \<and> strictly_before is_nodeResolve is_replace (plugins (buildConfigs r opts ! 3))
   \<and> strictly_before is_replace is_terser (plugins (buildConfigs r opts ! 3))
   \<and> strictly_before is_terser is_visualizer (plugins (buildConfigs r opts ! 3))
   \<and> filter is_babel (plugins (buildConfigs r opts ! 3)) = [babelPlugin]
   \<and> filter is_nodeResolve (plugins (buildConfigs r opts ! 3))
       = [nodeResolve [''.ts'', ''.tsx'', ''.jsx'']]
   \<and> filter is_replace (plugins (buildConfigs r opts ! 3)) = [umdDevPlugin production]
   \<and> filter is_terser (plugins (buildConfigs r opts ! 3)) = [terser True True]
   \<and> length (filter is_visualizer (plugins (buildConfigs r opts ! 3))) = 2"
  unfolding umdProd_plugins strictly_before_def
  by (simp add: babelPlugin_def umdDevPlugin_def upt_rec [of 0] upt_rec [of "Suc _"])

text \<open>
  The pipeline of the declaration of \<^verbatim>\<open>rollup\<close>: the stages at the indices 0, 1, 2, 3, 5
  and 6 are the ones the orderings speak of.
\<close>

theorem umdProd_stage_order_witness:
  "is_babel (plugins (buildConfigs (resolve_in ''/repo'') ranger_core ! 3) ! 0)
   \<and> is_nodeResolve (plugins (buildConfigs (resolve_in ''/repo'') ranger_core ! 3) ! 1)
   \<and> is_replace (plugins (buildConfigs (resolve_in ''/repo'') ranger_core ! 3) ! 2)
   \<and> is_terser (plugins (buildConfigs (resolve_in ''/repo'') ranger_core ! 3) ! 3)
   \<and> is_visualizer (plugins (buildConfigs (resolve_in ''/repo'') ranger_core ! 3) ! 5)
   \<and> is_visualizer (plugins (buildConfigs (resolve_in ''/repo'') ranger_core ! 3) ! 6)
   \<and> strictly_before is_babel is_replace
        (plugins (buildConfigs (resolve_in ''/repo'') ranger_core ! 3))
   \<and> strictly_before is_nodeResolve is_replace
        (plugins (buildConfigs (resolve_in ''/repo'') ranger_core ! 3))
   \<and> strictly_before is_replace is_terser
        (plugins (buildConfigs (resolve_in ''/repo'') ranger_core ! 3))
   \<and> strictly_before is_terser is_visualizer
        (plugins (buildConfigs (resolve_in ''/repo'') ranger_core ! 3))"
proof -
  have "is_babel (plugins (buildConfigs (resolve_in ''/repo'') ranger_core ! 3) ! 0)"
    and "is_nodeResolve (plugins (buildConfigs (resolve_in ''/repo'') ranger_core ! 3) ! 1)"
    and "is_replace (plugins (buildConfigs (resolve_in ''/repo'') ranger_core ! 3) ! 2)"
    and "is_terser (plugins (buildConfigs (resolve_in ''/repo'') ranger_core ! 3) ! 3)"
    and "is_visualizer (plugins (buildConfigs (resolve_in ''/repo'') ranger_core ! 3) ! 5)"
    and "is_visualizer (plugins (buildConfigs (resolve_in ''/repo'') ranger_core ! 3) ! 6)"
    by (simp_all add: umdProd_plugins)
  then show ?thesis
    using umdProd_stage_order [of "resolve_in ''/repo''" ranger_core] by blast
qed

subsection \<open>C8: the keys of \<open>globals\<close> and the classifier\<close>

text \<open>
  C8. The set of names that the \<^verbatim>\<open>external\<close> predicate of each of the four descriptors
  answers true for is exactly the set of keys of \<^verbatim>\<open>globals\<close>, and the UMD-DEV and the
  UMD-PROD descriptor both carry \<^verbatim>\<open>globals\<close> itself as \<^verbatim>\<open>output.globals\<close>.
\<close>

theorem globals_keys_are_externals:
  "map (\<lambda>d. {m. external d m}) (buildConfigs r opts) = replicate 4 (dom (map_of globals))
   \<and> target_of (buildConfigs r opts ! 2) = Some UMD_DEV
   \<and> output_globals (output (buildConfigs r opts ! 2)) = Some globals
   \<and> target_of (buildConfigs r opts ! 3) = Some UMD_PROD
   \<and> output_globals (output (buildConfigs r opts ! 3)) = Some globals"
proof -
  have keys: "dom (map_of globals) = set externals"
    by (simp add: externals_def dom_map_of_conv_image_fst)
  have "map (\<lambda>d. {m. external d m}) (buildConfigs r opts) = replicate 4 (set externals)"
    by (simp add: buildConfigs_expand build_options_def esm_def cjs_def umdDev_def umdProd_def
        numeral_eq_Suc)
  moreover have "output_globals (output (umdDev (build_options r opts))) = Some globals"
    by (simp add: umdDev_def)
  moreover have "output_globals (output (umdProd (build_options r opts))) = Some globals"
    by (simp add: umdProd_def)
  ultimately show ?thesis
    by (simp only: keys buildConfigs_nth target_of_umdDev target_of_umdProd simp_thms)
qed

subsection \<open>C9: the exported generator ignores its argument\<close>

text \<open>
  C9. For any two arguments (and one and the same \<^verbatim>\<open>path.resolve\<close>, that is, one working
  directory) \<open>rollup\<close> returns equal lists: the result is always the family of four
  descriptors of the fixed declaration of the package \<^verbatim>\<open>ranger-core\<close>.
\<close>

theorem rollup_ignores_options:
  "rollup r options1 = rollup r options2
   \<and> rollup r options1 = buildConfigs r ranger_core
   \<and> map target_of (rollup r options1) = [Some ESM, Some CJS, Some UMD_DEV, Some UMD_PROD]"
proof -
  have "rollup r options1 = buildConfigs r ranger_core" for options1
    by (simp add: rollup_def ranger_core_def)
  then show ?thesis
    by (simp add: targets_buildConfigs)
qed

subsection \<open>C10: the output base name is never used\<close>

text \<open>
  C10. Two declarations that differ only in \<^verbatim>\<open>outputFile\<close> yield the same list of four
  descriptors: the field is handed on to the builders, and none of them reads it.
\<close>

theorem outputFile_never_used:
  "buildConfigs r (opts\<lparr>opts_outputFile := a\<rparr>) = buildConfigs r (opts\<lparr>opts_outputFile := b\<rparr>)"
  by (simp add: buildConfigs_def Let_def esm_def cjs_def umdDev_def umdProd_def)

text \<open>
  The declaration of \<^verbatim>\<open>rollup\<close> with two other base names: the UMD file names stay
  \<^verbatim>\<open>index.development.js\<close> and \<^verbatim>\<open>index.production.js\<close>.
\<close>

theorem outputFile_never_used_witness:
  "buildConfigs (resolve_in ''/repo'') (ranger_core\<lparr>opts_outputFile := ''a''\<rparr>)
     = buildConfigs (resolve_in ''/repo'') (ranger_core\<lparr>opts_outputFile := ''b''\<rparr>)
   \<and> map (output_file \<circ> output)
        (buildConfigs (resolve_in ''/repo'') (ranger_core\<lparr>opts_outputFile := ''a''\<rparr>))
     = [None, None,
        Some ''packages/ranger-core/build/umd/index.development.js'',
        Some ''packages/ranger-core/build/umd/index.production.js'']"
proof -
  have "map (output_file \<circ> output)
        (buildConfigs (resolve_in ''/repo'') (ranger_core\<lparr>opts_outputFile := ''a''\<rparr>))
     = [None, None,
        Some ''packages/ranger-core/build/umd/index.development.js'',
        Some ''packages/ranger-core/build/umd/index.production.js'']"
    by (simp add: buildConfigs_expand build_options_def esm_def cjs_def umdDev_def umdProd_def
        ranger_core_def)
  then show ?thesis
    using outputFile_never_used
      [where r = "resolve_in ''/repo''" and opts = ranger_core and a = "''a''" and b = "''b''"]
    by simp
qed

end
